theory Spec2Isabelle
  imports Main "HOL-Library.Sublist"
begin

section \<open>Python values and errors\<close>

text \<open>
  The fields of an attrs class hold Python objects. The values that matter here are
  \<open>None\<close>, booleans and strings; every other object is abstracted by what the two
  protocol calls of \<open>__str__\<close> do on it: \<open>format(obj, '')\<close> (the replacement
  field of an f-string) and \<open>bool(obj)\<close> (the condition of the conditional
  expression). \<open>None\<close> there stands for a call that raises.
\<close>

datatype pyval =
    PyNone
  | PyBool bool
  | PyStr string
  | PyObj "string option" "bool option"

datatype error = TypeError | FrozenInstanceError | Raised

definition bind_res :: "error + 'a \<Rightarrow> ('a \<Rightarrow> error + 'b) \<Rightarrow> error + 'b" where
  "bind_res r f = (case r of Inl e \<Rightarrow> Inl e | Inr x \<Rightarrow> f x)"

text \<open>\<open>format(v, '')\<close>: what an f-string puts in place of \<open>{v}\<close>.\<close>

fun format_py :: "pyval \<Rightarrow> error + string" where
  "format_py PyNone = Inr ''None''"
| "format_py (PyBool b) = Inr (if b then ''True'' else ''False'')"
| "format_py (PyStr s) = Inr s"
| "format_py (PyObj None t) = Inl Raised"
| "format_py (PyObj (Some s) t) = Inr s"

text \<open>The truth value that \<open>x if v else y\<close> tests.\<close>

fun truth_py :: "pyval \<Rightarrow> error + bool" where
  "truth_py PyNone = Inr False"
| "truth_py (PyBool b) = Inr b"
| "truth_py (PyStr s) = Inr (s \<noteq> [])"
| "truth_py (PyObj f None) = Inl Raised"
| "truth_py (PyObj f (Some b)) = Inr b"

section \<open>The records\<close>

text \<open>
  Modelled from the spec: the base class \<open>Channel\<close> of \<open>pyrestream.schemas\<close> is
  imported, not declared, by \<open>_schemas.py\<close>. Its seven fields are the ones the spec
  lists for the base resource record and \<open>__str__\<close> reads; the field \<open>id\<close> is
  named \<open>id_field\<close> here.
\<close>

record Channel =
  id_field :: pyval
  display_name :: pyval
  active :: pyval
  channel_url :: pyval
  channel_identifier :: pyval
  service_id :: pyval
  user_id :: pyval

text \<open>\<open>class ChannelWithMeta(Channel)\<close>: the base fields, then \<open>title\<close> and \<open>description\<close>.\<close>

record ChannelWithMeta = Channel +
  title :: pyval
  description :: pyval

fun is_str :: "pyval \<Rightarrow> bool" where
  "is_str (PyStr s) = True"
| "is_str v = False"

fun is_bool :: "pyval \<Rightarrow> bool" where
  "is_bool (PyBool b) = True"
| "is_bool v = False"

fun str_of :: "pyval \<Rightarrow> string" where
  "str_of (PyStr s) = s"
| "str_of v = []"

text \<open>
  A valid Extended Display Record: every text field holds a string and \<open>active\<close> holds a
  boolean.
\<close>

definition valid :: "ChannelWithMeta \<Rightarrow> bool" where
  "valid c \<longleftrightarrow>
     is_str (id_field c) \<and> is_str (display_name c) \<and> is_str (title c) \<and>
     is_str (description c) \<and> is_bool (active c) \<and> is_str (channel_url c) \<and>
     is_str (channel_identifier c) \<and> is_str (service_id c) \<and> is_str (user_id c)"

section \<open>Rendering\<close>

text \<open>
  \<open>ChannelWithMeta.__str__\<close>: ten adjacent f-string literals, concatenated. The
  replacement fields are evaluated from left to right; the first one that raises ends
  the call.
\<close>

definition ChannelWithMeta_str :: "ChannelWithMeta \<Rightarrow> error + string" where
  "ChannelWithMeta_str self =
     bind_res (format_py (id_field self)) (\<lambda>v_id.
     bind_res (format_py (display_name self)) (\<lambda>v_display_name.
     bind_res (format_py (title self)) (\<lambda>v_title.
     bind_res (format_py (description self)) (\<lambda>v_description.
     bind_res (truth_py (active self)) (\<lambda>v_active.
     bind_res (format_py (channel_url self)) (\<lambda>v_channel_url.
     bind_res (format_py (channel_identifier self)) (\<lambda>v_channel_identifier.
     bind_res (format_py (service_id self)) (\<lambda>v_service_id.
     bind_res (format_py (user_id self)) (\<lambda>v_user_id.
       Inr (''Channel Information:\<newline>''
          @ ''  ID: '' @ v_id @ ''\<newline>''
          @ ''  Display Name: '' @ v_display_name @ ''\<newline>''
          @ ''  Title: '' @ v_title @ ''\<newline>''
          @ ''  Description: '' @ v_description @ ''\<newline>''
          @ ''  Status: '' @ (if v_active then ''Active'' else ''Inactive'') @ ''\<newline>''
          @ ''  Channel URL: '' @ v_channel_url @ ''\<newline>''
          @ ''  Channel Identifier: '' @ v_channel_identifier @ ''\<newline>''
          @ ''  Service ID: '' @ v_service_id @ ''\<newline>''
          @ ''  User ID: '' @ v_user_id))))))))))"

section \<open>Construction and assignment\<close>

text \<open>
  The initialiser that \<open>@attrs.define\<close> generates for the class: one required
  argument for each field, base fields first. An argument is \<open>None\<close> here when the call
  does not supply it, which Python answers with a \<open>TypeError\<close>. The fields are bare
  annotations, so no converter and no validator runs: each value is stored as it comes.
\<close>

definition ChannelWithMeta_init ::
  "pyval option \<Rightarrow> pyval option \<Rightarrow> pyval option \<Rightarrow> pyval option \<Rightarrow> pyval option \<Rightarrow>
   pyval option \<Rightarrow> pyval option \<Rightarrow> pyval option \<Rightarrow> pyval option \<Rightarrow> error + ChannelWithMeta" where
  "ChannelWithMeta_init a_id a_display_name a_active a_channel_url a_channel_identifier
       a_service_id a_user_id a_title a_description =
     (case (a_id, a_display_name, a_active, a_channel_url, a_channel_identifier,
            a_service_id, a_user_id, a_title, a_description) of
        (Some i, Some n, Some a, Some u, Some ci, Some sv, Some us, Some t, Some d) \<Rightarrow>
          Inr \<lparr>id_field = i, display_name = n, active = a, channel_url = u,
               channel_identifier = ci, service_id = sv, user_id = us,
               title = t, description = d\<rparr>
      | _ \<Rightarrow> Inl TypeError)"

datatype field =
    F_id | F_display_name | F_active | F_channel_url | F_channel_identifier
  | F_service_id | F_user_id | F_title | F_description

definition assign :: "ChannelWithMeta \<Rightarrow> field \<Rightarrow> pyval \<Rightarrow> ChannelWithMeta" where
  "assign c f v =
     (case f of
        F_id \<Rightarrow> c\<lparr>id_field := v\<rparr>
      | F_display_name \<Rightarrow> c\<lparr>display_name := v\<rparr>
      | F_active \<Rightarrow> c\<lparr>active := v\<rparr>
      | F_channel_url \<Rightarrow> c\<lparr>channel_url := v\<rparr>
      | F_channel_identifier \<Rightarrow> c\<lparr>channel_identifier := v\<rparr>
      | F_service_id \<Rightarrow> c\<lparr>service_id := v\<rparr>
      | F_user_id \<Rightarrow> c\<lparr>user_id := v\<rparr>
      | F_title \<Rightarrow> c\<lparr>title := v\<rparr>
      | F_description \<Rightarrow> c\<lparr>description := v\<rparr>)"


section \<open>Lines of a string\<close>

text \<open>\<open>s.split('\n')\<close> and \<open>'\n'.join(xs)\<close> of Python, used to state what the output looks like.\<close>

fun split_nl :: "string \<Rightarrow> string list" where
  "split_nl [] = [[]]"
| "split_nl (c # cs) =
     (if c = CHR ''\<newline>'' then [] # split_nl cs
      else (case split_nl cs of [] \<Rightarrow> [[c]] | l # ls \<Rightarrow> (c # l) # ls))"

fun join_nl :: "string list \<Rightarrow> string" where
  "join_nl [] = []"
| "join_nl [x] = x"
| "join_nl (x # y # ys) = x @ ''\<newline>'' @ join_nl (y # ys)"


text \<open>The nine labels of \<open>__str__\<close>, in the order of its lines.\<close>

definition labels :: "string list" where
  "labels =
     [''  ID: '', ''  Display Name: '', ''  Title: '', ''  Description: '', ''  Status: '',
      ''  Channel URL: '', ''  Channel Identifier: '', ''  Service ID: '', ''  User ID: '']"

text \<open>The record of the spec's concrete scenario.\<close>

definition scenario :: ChannelWithMeta where
  "scenario =
     \<lparr>id_field = PyStr ''c1'', display_name = PyStr ''My Channel'', active = PyBool True,
      channel_url = PyStr ''https://x.tv/c1'', channel_identifier = PyStr ''c1-ext'',
      service_id = PyStr ''svc1'', user_id = PyStr ''u1'',
      title = PyStr ''Live Show'', description = PyStr ''Daily stream''\<rparr>"

text \<open>An inactive channel whose metadata is empty.\<close>

definition offline :: ChannelWithMeta where
  "offline =
     \<lparr>id_field = PyStr ''c2'', display_name = PyStr ''Second'', active = PyBool False,
      channel_url = PyStr ''https://x.tv/c2'', channel_identifier = PyStr ''c2-ext'',
      service_id = PyStr ''svc2'', user_id = PyStr ''u2'',
      title = PyStr [], description = PyStr []\<rparr>"

text \<open>The scenario's channel with a description of two lines.\<close>

definition two_line :: ChannelWithMeta where
  "two_line = scenario\<lparr>description := PyStr ''Daily\<newline>stream''\<rparr>"

text \<open>The scenario's channel with a user id that ends in a newline character.\<close>

definition trailing :: ChannelWithMeta where
  "trailing = scenario\<lparr>user_id := PyStr ''u1\<newline>''\<rparr>"

text \<open>No text field of the record holds a newline character.\<close>

definition nl_free :: "ChannelWithMeta \<Rightarrow> bool" where
  "nl_free c \<longleftrightarrow>
     CHR ''\<newline>'' \<notin> set (str_of (id_field c)) \<and>
     CHR ''\<newline>'' \<notin> set (str_of (display_name c)) \<and>
     CHR ''\<newline>'' \<notin> set (str_of (title c)) \<and>
     CHR ''\<newline>'' \<notin> set (str_of (description c)) \<and>
     CHR ''\<newline>'' \<notin> set (str_of (channel_url c)) \<and>
     CHR ''\<newline>'' \<notin> set (str_of (channel_identifier c)) \<and>
     CHR ''\<newline>'' \<notin> set (str_of (service_id c)) \<and>
     CHR ''\<newline>'' \<notin> set (str_of (user_id c))"


section \<open>Helper lemmas\<close>

lemma format_py_str: "is_str v \<Longrightarrow> format_py v = Inr (str_of v)"
  by (cases v) simp_all

lemma truth_py_bool: "is_bool v \<Longrightarrow> truth_py v = Inr (v = PyBool True)"
  by (cases v) simp_all

lemma bind_res_Inr: "bind_res (Inr x) f = f x"
  by (simp add: bind_res_def)

lemma str_valid:
  assumes "valid c"
  shows "ChannelWithMeta_str c =
     Inr (''Channel Information:\<newline>''
          @ ''  ID: '' @ str_of (id_field c) @ ''\<newline>''
          @ ''  Display Name: '' @ str_of (display_name c) @ ''\<newline>''
          @ ''  Title: '' @ str_of (title c) @ ''\<newline>''
          @ ''  Description: '' @ str_of (description c) @ ''\<newline>''
          @ ''  Status: '' @ (if active c = PyBool True then ''Active'' else ''Inactive'')
          @ ''\<newline>''
          @ ''  Channel URL: '' @ str_of (channel_url c) @ ''\<newline>''
          @ ''  Channel Identifier: '' @ str_of (channel_identifier c) @ ''\<newline>''
          @ ''  Service ID: '' @ str_of (service_id c) @ ''\<newline>''
          @ ''  User ID: '' @ str_of (user_id c))"
  using assms unfolding valid_def ChannelWithMeta_str_def
  by (simp only: format_py_str truth_py_bool bind_res_Inr)

lemma valid_scenario: "valid scenario"
  by (simp add: valid_def scenario_def)

lemma split_nl_not_Nil: "split_nl s \<noteq> []"
  by (induction s) (auto split: list.splits)

lemma split_nl_append_nl:
  "split_nl (a @ CHR ''\<newline>'' # b) = split_nl a @ split_nl b"
proof (induction a)
  case Nil
  show ?case by simp
next
  case (Cons c cs)
  show ?case
  proof (cases "split_nl cs")
    case Nil
    then show ?thesis using split_nl_not_Nil by blast
  next
    case (Cons l ls)
    then show ?thesis using Cons.IH by simp
  qed
qed

lemma split_nl_no_nl: "CHR ''\<newline>'' \<notin> set s \<Longrightarrow> split_nl s = [s]"
  by (induction s) auto




lemma split_nl_join_nl: "xs \<noteq> [] \<Longrightarrow> split_nl (join_nl xs) = concat (map split_nl xs)"
proof (induction xs rule: join_nl.induct)
  case 1
  then show ?case by simp
next
  case (2 x)
  show ?case by simp
next
  case (3 x y ys)
  have "split_nl (join_nl (x # y # ys)) = split_nl (x @ CHR ''\<newline>'' # join_nl (y # ys))"
    by simp
  also have "\<dots> = split_nl x @ split_nl (join_nl (y # ys))"
    by (rule split_nl_append_nl)
  finally show ?case using 3 by simp
qed

lemma str_valid_join:
  assumes "valid c"
  shows "ChannelWithMeta_str c =
     Inr (join_nl
       [''Channel Information:'',
        ''  ID: '' @ str_of (id_field c),
        ''  Display Name: '' @ str_of (display_name c),
        ''  Title: '' @ str_of (title c),
        ''  Description: '' @ str_of (description c),
        ''  Status: '' @ (if active c = PyBool True then ''Active'' else ''Inactive''),
        ''  Channel URL: '' @ str_of (channel_url c),
        ''  Channel Identifier: '' @ str_of (channel_identifier c),
        ''  Service ID: '' @ str_of (service_id c),
        ''  User ID: '' @ str_of (user_id c)])"
  by (simp add: str_valid [OF assms])

lemma str_valid_lines:
  assumes "valid c" and "ChannelWithMeta_str c = Inr s"
  shows "split_nl s =
      [''Channel Information:'']
      @ split_nl (''  ID: '' @ str_of (id_field c))
      @ split_nl (''  Display Name: '' @ str_of (display_name c))
      @ split_nl (''  Title: '' @ str_of (title c))
      @ split_nl (''  Description: '' @ str_of (description c))
      @ [''  Status: '' @ (if active c = PyBool True then ''Active'' else ''Inactive'')]
      @ split_nl (''  Channel URL: '' @ str_of (channel_url c))
      @ split_nl (''  Channel Identifier: '' @ str_of (channel_identifier c))
      @ split_nl (''  Service ID: '' @ str_of (service_id c))
      @ split_nl (''  User ID: '' @ str_of (user_id c))"
proof -
  have s: "s = join_nl
       [''Channel Information:'',
        ''  ID: '' @ str_of (id_field c),
        ''  Display Name: '' @ str_of (display_name c),
        ''  Title: '' @ str_of (title c),
        ''  Description: '' @ str_of (description c),
        ''  Status: '' @ (if active c = PyBool True then ''Active'' else ''Inactive''),
        ''  Channel URL: '' @ str_of (channel_url c),
        ''  Channel Identifier: '' @ str_of (channel_identifier c),
        ''  Service ID: '' @ str_of (service_id c),
        ''  User ID: '' @ str_of (user_id c)]"
    using assms str_valid_join [OF assms(1)] by simp
  have h: "split_nl ''Channel Information:'' = [''Channel Information:'']"
    by (rule split_nl_no_nl) simp
  have st: "split_nl (''  Status: '' @ (if active c = PyBool True then ''Active'' else ''Inactive''))
      = [''  Status: '' @ (if active c = PyBool True then ''Active'' else ''Inactive'')]"
    by (rule split_nl_no_nl) simp
  show ?thesis
    unfolding s
    apply (subst split_nl_join_nl)
     apply simp
    apply (simp only: list.map concat.simps h st append_Nil2 append_assoc)
    done
qed


lemma valid_offline: "valid offline"
  by (simp add: valid_def offline_def)




section \<open>The concrete scenario\<close>

text \<open>
  Claim C2. The record of the concrete scenario (id \<open>c1\<close>, display name
  \<open>My Channel\<close>, active, title \<open>Live Show\<close>, description \<open>Daily stream\<close>) is what
  the initialiser builds from these nine values, and it renders to exactly the text the
  specification gives.
\<close>

theorem render_scenario:
  "ChannelWithMeta_init (Some (PyStr ''c1'')) (Some (PyStr ''My Channel'')) (Some (PyBool True))
      (Some (PyStr ''https://x.tv/c1'')) (Some (PyStr ''c1-ext'')) (Some (PyStr ''svc1''))
      (Some (PyStr ''u1'')) (Some (PyStr ''Live Show'')) (Some (PyStr ''Daily stream''))
     = Inr scenario \<and>
   ChannelWithMeta_str scenario =
     Inr ''Channel Information:\<newline>  ID: c1\<newline>  Display Name: My Channel\<newline>  Title: Live Show\<newline>  Description: Daily stream\<newline>  Status: Active\<newline>  Channel URL: https://x.tv/c1\<newline>  Channel Identifier: c1-ext\<newline>  Service ID: svc1\<newline>  User ID: u1''"
  by (simp add: ChannelWithMeta_init_def scenario_def ChannelWithMeta_str_def bind_res_def)

section \<open>The status line\<close>



lemma split_nl_label:
  "CHR ''\<newline>'' \<notin> set l \<Longrightarrow> CHR ''\<newline>'' \<notin> set v \<Longrightarrow> split_nl (l @ v) = [l @ v]"
  by (rule split_nl_no_nl) simp

section \<open>Composing, then rendering\<close>

text \<open>
  Claim C4, as stated, at a description of two lines: the initialiser accepts it, and the
  rendered text has ten lines after the header, the fifth of which is \<open>stream\<close> and
  begins with no label.
\<close>

theorem render_two_line_counterexample:
  "ChannelWithMeta_init (Some (PyStr ''c1'')) (Some (PyStr ''My Channel'')) (Some (PyBool True))
      (Some (PyStr ''https://x.tv/c1'')) (Some (PyStr ''c1-ext'')) (Some (PyStr ''svc1''))
      (Some (PyStr ''u1'')) (Some (PyStr ''Live Show'')) (Some (PyStr ''Daily\<newline>stream''))
     = Inr two_line \<and>
   ChannelWithMeta_str two_line =
     Inr ''Channel Information:\<newline>  ID: c1\<newline>  Display Name: My Channel\<newline>  Title: Live Show\<newline>  Description: Daily\<newline>stream\<newline>  Status: Active\<newline>  Channel URL: https://x.tv/c1\<newline>  Channel Identifier: c1-ext\<newline>  Service ID: svc1\<newline>  User ID: u1'' \<and>
   length (tl (split_nl ''Channel Information:\<newline>  ID: c1\<newline>  Display Name: My Channel\<newline>  Title: Live Show\<newline>  Description: Daily\<newline>stream\<newline>  Status: Active\<newline>  Channel URL: https://x.tv/c1\<newline>  Channel Identifier: c1-ext\<newline>  Service ID: svc1\<newline>  User ID: u1'')) = 10 \<and>
   tl (split_nl ''Channel Information:\<newline>  ID: c1\<newline>  Display Name: My Channel\<newline>  Title: Live Show\<newline>  Description: Daily\<newline>stream\<newline>  Status: Active\<newline>  Channel URL: https://x.tv/c1\<newline>  Channel Identifier: c1-ext\<newline>  Service ID: svc1\<newline>  User ID: u1'') ! 4 = ''stream'' \<and>
   \<not> prefix (labels ! 4) ''stream''"
  by (simp add: ChannelWithMeta_init_def two_line_def scenario_def ChannelWithMeta_str_def
      bind_res_def labels_def)

text \<open>
  Claim C4, amended. When no field value contains a newline character, building the record
  from a base record's values and a (title, description) pair and rendering it gives the
  header and exactly nine more lines, each beginning with its label, in the fixed order.
\<close>

theorem compose_render_lines:
  assumes "CHR ''\<newline>'' \<notin> set i" and "CHR ''\<newline>'' \<notin> set n"
    and "CHR ''\<newline>'' \<notin> set u" and "CHR ''\<newline>'' \<notin> set ci"
    and "CHR ''\<newline>'' \<notin> set sv" and "CHR ''\<newline>'' \<notin> set us"
    and "CHR ''\<newline>'' \<notin> set t" and "CHR ''\<newline>'' \<notin> set d"
  shows "\<exists>c s.
     ChannelWithMeta_init (Some (PyStr i)) (Some (PyStr n)) (Some (PyBool a)) (Some (PyStr u))
       (Some (PyStr ci)) (Some (PyStr sv)) (Some (PyStr us)) (Some (PyStr t)) (Some (PyStr d))
       = Inr c \<and>
     ChannelWithMeta_str c = Inr s \<and>
     split_nl s =
       [''Channel Information:'',
        ''  ID: '' @ i,
        ''  Display Name: '' @ n,
        ''  Title: '' @ t,
        ''  Description: '' @ d,
        ''  Status: '' @ (if a then ''Active'' else ''Inactive''),
        ''  Channel URL: '' @ u,
        ''  Channel Identifier: '' @ ci,
        ''  Service ID: '' @ sv,
        ''  User ID: '' @ us] \<and>
     length (tl (split_nl s)) = 9 \<and>
     list_all2 prefix labels (tl (split_nl s))"
proof -
  define c where "c =
     \<lparr>id_field = PyStr i, display_name = PyStr n, active = PyBool a, channel_url = PyStr u,
      channel_identifier = PyStr ci, service_id = PyStr sv, user_id = PyStr us,
      title = PyStr t, description = PyStr d\<rparr>"
  have init: "ChannelWithMeta_init (Some (PyStr i)) (Some (PyStr n)) (Some (PyBool a))
       (Some (PyStr u)) (Some (PyStr ci)) (Some (PyStr sv)) (Some (PyStr us))
       (Some (PyStr t)) (Some (PyStr d)) = Inr c"
    by (simp add: ChannelWithMeta_init_def c_def)
  have v: "valid c" by (simp add: valid_def c_def)
  obtain s where s: "ChannelWithMeta_str c = Inr s"
    using str_valid [OF v] by blast
  have f: "str_of (id_field c) = i" "str_of (display_name c) = n" "str_of (title c) = t"
    "str_of (description c) = d" "str_of (channel_url c) = u"
    "str_of (channel_identifier c) = ci" "str_of (service_id c) = sv"
    "str_of (user_id c) = us" "(active c = PyBool True) = a"
    by (simp_all add: c_def)
  have l1: "split_nl (''  ID: '' @ i) = [''  ID: '' @ i]"
    by (rule split_nl_label) (simp_all add: assms)
  have l2: "split_nl (''  Display Name: '' @ n) = [''  Display Name: '' @ n]"
    by (rule split_nl_label) (simp_all add: assms)
  have l3: "split_nl (''  Title: '' @ t) = [''  Title: '' @ t]"
    by (rule split_nl_label) (simp_all add: assms)
  have l4: "split_nl (''  Description: '' @ d) = [''  Description: '' @ d]"
    by (rule split_nl_label) (simp_all add: assms)
  have l5: "split_nl (''  Channel URL: '' @ u) = [''  Channel URL: '' @ u]"
    by (rule split_nl_label) (simp_all add: assms)
  have l6: "split_nl (''  Channel Identifier: '' @ ci) = [''  Channel Identifier: '' @ ci]"
    by (rule split_nl_label) (simp_all add: assms)
  have l7: "split_nl (''  Service ID: '' @ sv) = [''  Service ID: '' @ sv]"
    by (rule split_nl_label) (simp_all add: assms)
  have l8: "split_nl (''  User ID: '' @ us) = [''  User ID: '' @ us]"
    by (rule split_nl_label) (simp_all add: assms)
  note l = l1 l2 l3 l4 l5 l6 l7 l8
  have sp: "split_nl s =
       [''Channel Information:'',
        ''  ID: '' @ i,
        ''  Display Name: '' @ n,
        ''  Title: '' @ t,
        ''  Description: '' @ d,
        ''  Status: '' @ (if a then ''Active'' else ''Inactive''),
        ''  Channel URL: '' @ u,
        ''  Channel Identifier: '' @ ci,
        ''  Service ID: '' @ sv,
        ''  User ID: '' @ us]"
  proof -
    have "split_nl s =
      [''Channel Information:'']
      @ [''  ID: '' @ i]
      @ [''  Display Name: '' @ n]
      @ [''  Title: '' @ t]
      @ [''  Description: '' @ d]
      @ [''  Status: '' @ (if a then ''Active'' else ''Inactive'')]
      @ [''  Channel URL: '' @ u]
      @ [''  Channel Identifier: '' @ ci]
      @ [''  Service ID: '' @ sv]
      @ [''  User ID: '' @ us]"
      using str_valid_lines [OF v s] by (simp only: f l)
    then show ?thesis by simp
  qed
  have n9: "length (tl (split_nl s)) = 9"
    unfolding sp by simp
  have pre: "list_all2 prefix labels (tl (split_nl s))"
    unfolding sp labels_def by simp
  from init s sp n9 pre show ?thesis by blast
qed

theorem compose_render_lines_witness:
  "CHR ''\<newline>'' \<notin> set ''c2'' \<and> CHR ''\<newline>'' \<notin> set ''Second'' \<and>
   CHR ''\<newline>'' \<notin> set ''https://x.tv/c2'' \<and> CHR ''\<newline>'' \<notin> set ''c2-ext'' \<and>
   CHR ''\<newline>'' \<notin> set ''svc2'' \<and> CHR ''\<newline>'' \<notin> set ''u2'' \<and>
   CHR ''\<newline>'' \<notin> set [] \<and>
   (\<exists>c s.
     ChannelWithMeta_init (Some (PyStr ''c2'')) (Some (PyStr ''Second'')) (Some (PyBool False))
       (Some (PyStr ''https://x.tv/c2'')) (Some (PyStr ''c2-ext'')) (Some (PyStr ''svc2''))
       (Some (PyStr ''u2'')) (Some (PyStr [])) (Some (PyStr [])) = Inr c \<and>
     ChannelWithMeta_str c = Inr s \<and>
     split_nl s =
       [''Channel Information:'',
        ''  ID: '' @ ''c2'',
        ''  Display Name: '' @ ''Second'',
        ''  Title: '' @ [],
        ''  Description: '' @ [],
        ''  Status: '' @ (if False then ''Active'' else ''Inactive''),
        ''  Channel URL: '' @ ''https://x.tv/c2'',
        ''  Channel Identifier: '' @ ''c2-ext'',
        ''  Service ID: '' @ ''svc2'',
        ''  User ID: '' @ ''u2''] \<and>
     length (tl (split_nl s)) = 9 \<and>
     list_all2 prefix labels (tl (split_nl s)))"
proof -
  have p: "CHR ''\<newline>'' \<notin> set ''c2''" "CHR ''\<newline>'' \<notin> set ''Second''"
    "CHR ''\<newline>'' \<notin> set ''https://x.tv/c2''" "CHR ''\<newline>'' \<notin> set ''c2-ext''"
    "CHR ''\<newline>'' \<notin> set ''svc2''" "CHR ''\<newline>'' \<notin> set ''u2''"
    "CHR ''\<newline>'' \<notin> set []"
    by simp_all
  from compose_render_lines [OF p(1) p(2) p(3) p(4) p(5) p(6) p(7) p(7), of False] p
  show ?thesis by (intro conjI) assumption+
qed

lemma join_nl_not_Nil: "xs \<noteq> [] \<Longrightarrow> last xs \<noteq> [] \<Longrightarrow> join_nl xs \<noteq> []"
  by (induction xs rule: join_nl.induct) auto

lemma last_join_nl: "xs \<noteq> [] \<Longrightarrow> last xs \<noteq> [] \<Longrightarrow> last (join_nl xs) = last (last xs)"
proof (induction xs rule: join_nl.induct)
  case 1
  then show ?case by simp
next
  case (2 x)
  then show ?case by simp
next
  case (3 x y ys)
  then have "join_nl (y # ys) \<noteq> []" using join_nl_not_Nil [of "y # ys"] by simp
  then show ?case using 3 by simp
qed

lemma valid_trailing: "valid trailing"
  by (simp add: valid_def trailing_def scenario_def)

lemma nl_free_offline: "nl_free offline"
  by (simp add: nl_free_def offline_def)

section \<open>The layout of the rendered text\<close>

text \<open>
  Claim C1, as stated, at a user id that ends in a newline character: the record is valid,
  its rendered text ends in a newline character, and ten lines follow the header.
\<close>

theorem render_trailing_counterexample:
  "valid trailing \<and>
   ChannelWithMeta_str trailing =
     Inr ''Channel Information:\<newline>  ID: c1\<newline>  Display Name: My Channel\<newline>  Title: Live Show\<newline>  Description: Daily stream\<newline>  Status: Active\<newline>  Channel URL: https://x.tv/c1\<newline>  Channel Identifier: c1-ext\<newline>  Service ID: svc1\<newline>  User ID: u1\<newline>'' \<and>
   last ''Channel Information:\<newline>  ID: c1\<newline>  Display Name: My Channel\<newline>  Title: Live Show\<newline>  Description: Daily stream\<newline>  Status: Active\<newline>  Channel URL: https://x.tv/c1\<newline>  Channel Identifier: c1-ext\<newline>  Service ID: svc1\<newline>  User ID: u1\<newline>'' = CHR ''\<newline>'' \<and>
   length (tl (split_nl ''Channel Information:\<newline>  ID: c1\<newline>  Display Name: My Channel\<newline>  Title: Live Show\<newline>  Description: Daily stream\<newline>  Status: Active\<newline>  Channel URL: https://x.tv/c1\<newline>  Channel Identifier: c1-ext\<newline>  Service ID: svc1\<newline>  User ID: u1\<newline>'')) = 10"
  by (simp add: valid_def trailing_def scenario_def ChannelWithMeta_str_def bind_res_def)

text \<open>
  Claim C1, amended. For every record whose text fields are strings and whose \<open>active\<close> is
  a boolean, \<open>__str__\<close> returns the header \<open>Channel Information:\<close> and the nine pieces
  \<open>ID\<close>, \<open>Display Name\<close>, \<open>Title\<close>, \<open>Description\<close>, \<open>Status\<close>, \<open>Channel URL\<close>,
  \<open>Channel Identifier\<close>, \<open>Service ID\<close>, \<open>User ID\<close> in this order, each the label
  followed by the value of its field, joined by single newline characters. When no field
  value contains a newline character, these are exactly the ten lines of the text, and the
  text does not end in a newline character.
\<close>

theorem render_layout_nl_free:
  assumes "valid c"
  shows "\<exists>s. ChannelWithMeta_str c = Inr s \<and>
     s = join_nl
       [''Channel Information:'',
        ''  ID: '' @ str_of (id_field c),
        ''  Display Name: '' @ str_of (display_name c),
        ''  Title: '' @ str_of (title c),
        ''  Description: '' @ str_of (description c),
        ''  Status: '' @ (if active c = PyBool True then ''Active'' else ''Inactive''),
        ''  Channel URL: '' @ str_of (channel_url c),
        ''  Channel Identifier: '' @ str_of (channel_identifier c),
        ''  Service ID: '' @ str_of (service_id c),
        ''  User ID: '' @ str_of (user_id c)] \<and>
     (nl_free c \<longrightarrow>
        split_nl s =
          [''Channel Information:'',
           ''  ID: '' @ str_of (id_field c),
           ''  Display Name: '' @ str_of (display_name c),
           ''  Title: '' @ str_of (title c),
           ''  Description: '' @ str_of (description c),
           ''  Status: '' @ (if active c = PyBool True then ''Active'' else ''Inactive''),
           ''  Channel URL: '' @ str_of (channel_url c),
           ''  Channel Identifier: '' @ str_of (channel_identifier c),
           ''  Service ID: '' @ str_of (service_id c),
           ''  User ID: '' @ str_of (user_id c)] \<and>
        s \<noteq> [] \<and> last s \<noteq> CHR ''\<newline>'')"
proof -
  let ?xs = "[''Channel Information:'',
        ''  ID: '' @ str_of (id_field c),
        ''  Display Name: '' @ str_of (display_name c),
        ''  Title: '' @ str_of (title c),
        ''  Description: '' @ str_of (description c),
        ''  Status: '' @ (if active c = PyBool True then ''Active'' else ''Inactive''),
        ''  Channel URL: '' @ str_of (channel_url c),
        ''  Channel Identifier: '' @ str_of (channel_identifier c),
        ''  Service ID: '' @ str_of (service_id c),
        ''  User ID: '' @ str_of (user_id c)]"
  have s: "ChannelWithMeta_str c = Inr (join_nl ?xs)"
    by (rule str_valid_join [OF assms])
  have free: "split_nl (join_nl ?xs) = ?xs \<and> join_nl ?xs \<noteq> [] \<and>
      last (join_nl ?xs) \<noteq> CHR ''\<newline>''" if nf: "nl_free c"
  proof -
    have l1: "split_nl (''  ID: '' @ str_of (id_field c)) = [''  ID: '' @ str_of (id_field c)]"
      by (rule split_nl_label) (use nf in \<open>simp_all add: nl_free_def\<close>)
    have l2: "split_nl (''  Display Name: '' @ str_of (display_name c))
        = [''  Display Name: '' @ str_of (display_name c)]"
      by (rule split_nl_label) (use nf in \<open>simp_all add: nl_free_def\<close>)
    have l3: "split_nl (''  Title: '' @ str_of (title c)) = [''  Title: '' @ str_of (title c)]"
      by (rule split_nl_label) (use nf in \<open>simp_all add: nl_free_def\<close>)
    have l4: "split_nl (''  Description: '' @ str_of (description c))
        = [''  Description: '' @ str_of (description c)]"
      by (rule split_nl_label) (use nf in \<open>simp_all add: nl_free_def\<close>)
    have l5: "split_nl (''  Channel URL: '' @ str_of (channel_url c))
        = [''  Channel URL: '' @ str_of (channel_url c)]"
      by (rule split_nl_label) (use nf in \<open>simp_all add: nl_free_def\<close>)
    have l6: "split_nl (''  Channel Identifier: '' @ str_of (channel_identifier c))
        = [''  Channel Identifier: '' @ str_of (channel_identifier c)]"
      by (rule split_nl_label) (use nf in \<open>simp_all add: nl_free_def\<close>)
    have l7: "split_nl (''  Service ID: '' @ str_of (service_id c))
        = [''  Service ID: '' @ str_of (service_id c)]"
      by (rule split_nl_label) (use nf in \<open>simp_all add: nl_free_def\<close>)
    have l8: "split_nl (''  User ID: '' @ str_of (user_id c))
        = [''  User ID: '' @ str_of (user_id c)]"
      by (rule split_nl_label) (use nf in \<open>simp_all add: nl_free_def\<close>)
    have "split_nl (join_nl ?xs) =
      [''Channel Information:'']
      @ [''  ID: '' @ str_of (id_field c)]
      @ [''  Display Name: '' @ str_of (display_name c)]
      @ [''  Title: '' @ str_of (title c)]
      @ [''  Description: '' @ str_of (description c)]
      @ [''  Status: '' @ (if active c = PyBool True then ''Active'' else ''Inactive'')]
      @ [''  Channel URL: '' @ str_of (channel_url c)]
      @ [''  Channel Identifier: '' @ str_of (channel_identifier c)]
      @ [''  Service ID: '' @ str_of (service_id c)]
      @ [''  User ID: '' @ str_of (user_id c)]"
      using str_valid_lines [OF assms s] by (simp only: l1 l2 l3 l4 l5 l6 l7 l8)
    then have sp: "split_nl (join_nl ?xs) = ?xs" by simp
    have ne: "join_nl ?xs \<noteq> []"
      by (rule join_nl_not_Nil) simp_all
    have "last (join_nl ?xs) = last (last ?xs)"
      by (rule last_join_nl) simp_all
    also have "\<dots> = last (''  User ID: '' @ str_of (user_id c))" by simp
    finally have la: "last (join_nl ?xs) = last (''  User ID: '' @ str_of (user_id c))" .
    have "last (''  User ID: '' @ str_of (user_id c)) \<in> set (''  User ID: '' @ str_of (user_id c))"
      by (rule last_in_set) simp
    moreover have "CHR ''\<newline>'' \<notin> set (''  User ID: '' @ str_of (user_id c))"
      using nf by (simp add: nl_free_def)
    ultimately have "last (join_nl ?xs) \<noteq> CHR ''\<newline>''"
      unfolding la by metis
    with sp ne show ?thesis by blast
  qed
  from s free show ?thesis by blast
qed

theorem render_layout_nl_free_witness:
  "valid offline \<and> nl_free offline \<and>
   ChannelWithMeta_str offline =
     Inr ''Channel Information:\<newline>  ID: c2\<newline>  Display Name: Second\<newline>  Title: \<newline>  Description: \<newline>  Status: Inactive\<newline>  Channel URL: https://x.tv/c2\<newline>  Channel Identifier: c2-ext\<newline>  Service ID: svc2\<newline>  User ID: u2'' \<and>
   split_nl ''Channel Information:\<newline>  ID: c2\<newline>  Display Name: Second\<newline>  Title: \<newline>  Description: \<newline>  Status: Inactive\<newline>  Channel URL: https://x.tv/c2\<newline>  Channel Identifier: c2-ext\<newline>  Service ID: svc2\<newline>  User ID: u2'' =
       [''Channel Information:'', ''  ID: c2'', ''  Display Name: Second'', ''  Title: '',
        ''  Description: '', ''  Status: Inactive'', ''  Channel URL: https://x.tv/c2'',
        ''  Channel Identifier: c2-ext'', ''  Service ID: svc2'', ''  User ID: u2'']"
  using render_layout_nl_free [OF valid_offline] valid_offline nl_free_offline
  by (simp add: offline_def)

section \<open>Rendering a valid record never fails\<close>

text \<open>
  Claim C7. For every valid record (text fields strings, \<open>active\<close> a boolean) \<open>__str__\<close>
  returns a string: no replacement field and no truth test raises, so the result is never
  an error.
\<close>

theorem render_total:
  assumes "valid c"
  shows "(\<exists>s. ChannelWithMeta_str c = Inr s) \<and> ChannelWithMeta_str c \<noteq> Inl e"
  using str_valid [OF assms] by simp

theorem render_total_witness:
  "valid scenario \<and> (\<exists>s. ChannelWithMeta_str scenario = Inr s) \<and>
   ChannelWithMeta_str scenario \<noteq> Inl Raised"
  using render_total [OF valid_scenario, of Raised] valid_scenario by simp

text \<open>
  Outside the valid records the call can fail: an object whose \<open>__format__\<close> raises, stored
  in \<open>title\<close>, ends \<open>__str__\<close> with that exception.
\<close>

lemma render_raises:
  "ChannelWithMeta_str (assign scenario F_title (PyObj None (Some True))) = Inl Raised"
  by (simp add: ChannelWithMeta_str_def assign_def scenario_def bind_res_def)

section \<open>Construction keeps every value\<close>

text \<open>
  Claim C9. Building the record from the seven values of a base record and a
  (title, description) pair succeeds for every value, and the result is the base record
  extended by the pair: its base part is the base record given, each base field and
  \<open>title\<close> and \<open>description\<close> hold the value supplied, unchanged and unchecked.
\<close>

theorem init_union:
  "ChannelWithMeta_init (Some (id_field b)) (Some (display_name b)) (Some (active b))
      (Some (channel_url b)) (Some (channel_identifier b)) (Some (service_id b))
      (Some (user_id b)) (Some t) (Some d)
     = Inr (Channel.extend b (ChannelWithMeta.fields t d)) \<and>
   Channel.truncate (Channel.extend b (ChannelWithMeta.fields t d)) = b \<and>
   id_field (Channel.extend b (ChannelWithMeta.fields t d)) = id_field b \<and>
   display_name (Channel.extend b (ChannelWithMeta.fields t d)) = display_name b \<and>
   active (Channel.extend b (ChannelWithMeta.fields t d)) = active b \<and>
   channel_url (Channel.extend b (ChannelWithMeta.fields t d)) = channel_url b \<and>
   channel_identifier (Channel.extend b (ChannelWithMeta.fields t d)) = channel_identifier b \<and>
   service_id (Channel.extend b (ChannelWithMeta.fields t d)) = service_id b \<and>
   user_id (Channel.extend b (ChannelWithMeta.fields t d)) = user_id b \<and>
   title (Channel.extend b (ChannelWithMeta.fields t d)) = t \<and>
   description (Channel.extend b (ChannelWithMeta.fields t d)) = d"
  by (cases b)
    (simp add: ChannelWithMeta_init_def Channel.extend_def Channel.truncate_def
      ChannelWithMeta.fields_def)


section \<open>Values are interpolated verbatim\<close>



lemma init_Some:
  "ChannelWithMeta_init (Some i) (Some n) (Some a) (Some u) (Some ci) (Some sv) (Some us)
      (Some t) (Some d) =
     Inr \<lparr>id_field = i, display_name = n, active = a, channel_url = u,
          channel_identifier = ci, service_id = sv, user_id = us,
          title = t, description = d\<rparr>"
  by (simp add: ChannelWithMeta_init_def)

lemma init_TypeError_iff:
  "ChannelWithMeta_init a1 a2 a3 a4 a5 a6 a7 a8 a9 = Inl TypeError \<longleftrightarrow>
     a1 = None \<or> a2 = None \<or> a3 = None \<or> a4 = None \<or> a5 = None \<or> a6 = None \<or>
     a7 = None \<or> a8 = None \<or> a9 = None"
  by (cases a1; cases a2; cases a3; cases a4; cases a5; cases a6; cases a7; cases a8; cases a9;
      simp add: ChannelWithMeta_init_def)

lemma init_only_TypeError:
  "ChannelWithMeta_init a1 a2 a3 a4 a5 a6 a7 a8 a9 = Inl e \<Longrightarrow> e = TypeError"
  by (cases a1; cases a2; cases a3; cases a4; cases a5; cases a6; cases a7; cases a8; cases a9;
      simp add: ChannelWithMeta_init_def)

lemma render_empty_meta:
  "ChannelWithMeta_str
     \<lparr>id_field = PyStr i, display_name = PyStr n, active = PyBool a, channel_url = PyStr u,
      channel_identifier = PyStr ci, service_id = PyStr sv, user_id = PyStr us,
      title = PyStr [], description = PyStr []\<rparr> =
   Inr ((''Channel Information:\<newline>'' @ ''  ID: '' @ i @ ''\<newline>'' @ ''  Display Name: '' @ n)
        @ ''\<newline>  Title: \<newline>  Description: \<newline>''
        @ (''  Status: '' @ (if a then ''Active'' else ''Inactive'') @ ''\<newline>''
           @ ''  Channel URL: '' @ u @ ''\<newline>''
           @ ''  Channel Identifier: '' @ ci @ ''\<newline>''
           @ ''  Service ID: '' @ sv @ ''\<newline>''
           @ ''  User ID: '' @ us))"
  by (simp add: ChannelWithMeta_str_def bind_res_def)

section \<open>When construction fails\<close>

text \<open>
  Claim C6, as stated, at a null title: the initialiser accepts \<open>None\<close> for \<open>title\<close> and
  the record renders the line \<open>  Title: None\<close>; and when the title is not supplied at all,
  the failure is a \<open>TypeError\<close>, the only error the initialiser has.
\<close>

theorem init_none_title_counterexample:
  "ChannelWithMeta_init (Some (PyStr ''c1'')) (Some (PyStr ''My Channel'')) (Some (PyBool True))
      (Some (PyStr ''https://x.tv/c1'')) (Some (PyStr ''c1-ext'')) (Some (PyStr ''svc1''))
      (Some (PyStr ''u1'')) (Some PyNone) (Some (PyStr ''Daily stream''))
     = Inr (assign scenario F_title PyNone) \<and>
   ChannelWithMeta_str (assign scenario F_title PyNone) =
     Inr ''Channel Information:\<newline>  ID: c1\<newline>  Display Name: My Channel\<newline>  Title: None\<newline>  Description: Daily stream\<newline>  Status: Active\<newline>  Channel URL: https://x.tv/c1\<newline>  Channel Identifier: c1-ext\<newline>  Service ID: svc1\<newline>  User ID: u1'' \<and>
   ChannelWithMeta_init (Some (PyStr ''c1'')) (Some (PyStr ''My Channel'')) (Some (PyBool True))
      (Some (PyStr ''https://x.tv/c1'')) (Some (PyStr ''c1-ext'')) (Some (PyStr ''svc1''))
      (Some (PyStr ''u1'')) None (Some (PyStr ''Daily stream''))
     = Inl TypeError"
  by (simp add: ChannelWithMeta_init_def assign_def scenario_def ChannelWithMeta_str_def
      bind_res_def)

text \<open>
  Claim C6, amended. Construction fails exactly when one of the nine field arguments is
  not supplied, and the failure is Python's \<open>TypeError\<close>, never another error. A value
  that is supplied is not checked: whatever it is, \<open>None\<close> included, it is stored. With an empty string for \<open>title\<close> and for
  \<open>description\<close> construction succeeds, and the rendered text has the lines \<open>  Title: \<close>
  and \<open>  Description: \<close>, each label with an empty value.
\<close>

theorem init_fails_iff_argument_missing:
  "(ChannelWithMeta_init a1 a2 a3 a4 a5 a6 a7 a8 a9 = Inl TypeError \<longleftrightarrow>
      a1 = None \<or> a2 = None \<or> a3 = None \<or> a4 = None \<or> a5 = None \<or> a6 = None \<or>
      a7 = None \<or> a8 = None \<or> a9 = None) \<and>
   ChannelWithMeta_init a1 a2 a3 a4 a5 a6 a7 a8 a9 \<noteq> Inl Raised \<and>
   ChannelWithMeta_init a1 a2 a3 a4 a5 a6 a7 a8 a9 \<noteq> Inl FrozenInstanceError \<and>
   ChannelWithMeta_init (Some v1) (Some v2) (Some v3) (Some v4) (Some v5) (Some v6) (Some v7)
       (Some v8) (Some v9) =
     Inr \<lparr>id_field = v1, display_name = v2, active = v3, channel_url = v4,
          channel_identifier = v5, service_id = v6, user_id = v7,
          title = v8, description = v9\<rparr> \<and>
   (\<exists>c s.
      ChannelWithMeta_init (Some (PyStr i)) (Some (PyStr n)) (Some (PyBool a)) (Some (PyStr u))
        (Some (PyStr ci)) (Some (PyStr sv)) (Some (PyStr us)) (Some (PyStr [])) (Some (PyStr []))
        = Inr c \<and>
      title c = PyStr [] \<and> description c = PyStr [] \<and>
      ChannelWithMeta_str c = Inr s \<and>
      sublist ''\<newline>  Title: \<newline>  Description: \<newline>'' s)"
proof -
  have e1: "ChannelWithMeta_init a1 a2 a3 a4 a5 a6 a7 a8 a9 \<noteq> Inl Raised"
    using init_only_TypeError [of a1 a2 a3 a4 a5 a6 a7 a8 a9 Raised] by auto
  have e2: "ChannelWithMeta_init a1 a2 a3 a4 a5 a6 a7 a8 a9 \<noteq> Inl FrozenInstanceError"
    using init_only_TypeError [of a1 a2 a3 a4 a5 a6 a7 a8 a9 FrozenInstanceError] by auto
  define c where "c =
     \<lparr>id_field = PyStr i, display_name = PyStr n, active = PyBool a, channel_url = PyStr u,
      channel_identifier = PyStr ci, service_id = PyStr sv, user_id = PyStr us,
      title = PyStr [], description = PyStr []\<rparr>"
  have i: "ChannelWithMeta_init (Some (PyStr i)) (Some (PyStr n)) (Some (PyBool a)) (Some (PyStr u))
        (Some (PyStr ci)) (Some (PyStr sv)) (Some (PyStr us)) (Some (PyStr [])) (Some (PyStr []))
        = Inr c"
    unfolding c_def by (rule init_Some)
  have t: "title c = PyStr []" "description c = PyStr []"
    by (simp_all add: c_def)
  obtain s where s: "ChannelWithMeta_str c = Inr s"
    and sub: "sublist ''\<newline>  Title: \<newline>  Description: \<newline>'' s"
    unfolding c_def render_empty_meta using sublist_appendI by blast
  from init_TypeError_iff [of a1 a2 a3 a4 a5 a6 a7 a8 a9] e1 e2 i t s sub
    init_Some [of v1 v2 v3 v4 v5 v6 v7 v8 v9]
  show ?thesis by blast
qed

section \<open>Assignment after construction\<close>




end
